theory Spec2Isabelle
  imports Main "HOL-Library.Sublist"
begin

section \<open>The session store (frontend/src/store/sessionStore.ts and its later version, part_005)\<close>

text \<open>
  The repository's sources under src/ are the React frontend and the project documents; the
  Python backend (agents, graph, API) is not among them. The store below is the Zustand
  store of the frontend. Two versions of it are in the sources: the file
  \<^verbatim>\<open>frontend/src/store/sessionStore.ts\<close> and the later \<^verbatim>\<open>unnamed/part_005\<close>, which adds
  \<^verbatim>\<open>previousNode\<close>, \<^verbatim>\<open>executionCount\<close> and \<^verbatim>\<open>incrementAgentExecution\<close> and changes
  \<^verbatim>\<open>setSession\<close> and \<^verbatim>\<open>setActiveNode\<close>. Functions of the later version carry the suffix
  \<^verbatim>\<open>_part_005\<close>; \<^verbatim>\<open>updateState\<close>, \<^verbatim>\<open>updateNodeStatus\<close>, \<^verbatim>\<open>addLog\<close> and \<^verbatim>\<open>clearLogs\<close>
  compute the same state in both and are defined once.

  Names: the field \<^verbatim>\<open>id\<close> of a node is \<open>node_id\<close> and its \<^verbatim>\<open>status\<close> is \<open>node_status\<close>; the
  fields \<^verbatim>\<open>id\<close>, \<^verbatim>\<open>type\<close>, \<^verbatim>\<open>input\<close> and \<^verbatim>\<open>output\<close> of a log entry are \<open>entry_id\<close>, \<open>log_type\<close>,
  \<open>log_input\<close> and \<open>log_output\<close>. The records are
  those of part_005; sessionStore.ts has no \<open>executionCount\<close> and no \<open>previousNode\<close> and
  never reads or writes them. A value \<^verbatim>\<open>string | null\<close> is a \<open>string option\<close>.
\<close>

datatype NodeStatus = Idle | Active | Complete | Error

record AgentNode =
  node_id :: string
  label :: string
  node_status :: NodeStatus
  executionCount :: nat

datatype LogType = Info | Success | Warning | Failure

record LogEntry =
  entry_id :: string
  timestamp :: int
  agent :: string
  message :: string
  log_type :: LogType
  log_input :: "string option"
  log_output :: "string option"

record SessionState =
  sessionId :: "string option"
  threadId :: "string option"
  intent :: string
  status :: string
  currentDraft :: string
  safetyScore :: int
  empathyScore :: int
  iterationCount :: int
  nodes :: "AgentNode list"
  activeNode :: "string option"
  previousNode :: "string option"
  logs :: "LogEntry list"
  isConnected :: bool
  isPaused :: bool

text \<open>
  \<^verbatim>\<open>Partial<SessionState>\<close>, the argument of \<^verbatim>\<open>updateState\<close>: a field is \<open>Some v\<close> when the
  object has the key, \<open>None\<close> when it has not.
\<close>

record SessionPatch =
  p_sessionId :: "string option option"
  p_threadId :: "string option option"
  p_intent :: "string option"
  p_status :: "string option"
  p_currentDraft :: "string option"
  p_safetyScore :: "int option"
  p_empathyScore :: "int option"
  p_iterationCount :: "int option"
  p_nodes :: "AgentNode list option"
  p_activeNode :: "string option option"
  p_previousNode :: "string option option"
  p_logs :: "LogEntry list option"
  p_isConnected :: "bool option"
  p_isPaused :: "bool option"

definition mk_node :: "string \<Rightarrow> string \<Rightarrow> AgentNode" where
  "mk_node i l = \<lparr>node_id = i, label = l, node_status = Idle, executionCount = 0\<rparr>"

definition initialNodes :: "AgentNode list" where
  "initialNodes =
     [mk_node ''supervisor'' ''Supervisor'',
      mk_node ''drafter'' ''Drafter'',
      mk_node ''safety_guardian'' ''Safety Guardian'',
      mk_node ''clinical_critic'' ''Clinical Critic'',
      mk_node ''human_gate'' ''Human Review'',
      mk_node ''finalize'' ''Finalize'']"

definition initial_store :: SessionState where
  "initial_store =
     \<lparr>sessionId = None, threadId = None, intent = '''', status = ''idle'',
      currentDraft = '''', safetyScore = 0, empathyScore = 0, iterationCount = 0,
      nodes = initialNodes, activeNode = None, previousNode = None, logs = [],
      isConnected = False, isPaused = False\<rparr>"

subsection \<open>Actions of sessionStore.ts\<close>

definition setSession :: "string \<Rightarrow> string \<Rightarrow> string \<Rightarrow> SessionState \<Rightarrow> SessionState" where
  "setSession sid tid i state =
     state\<lparr>sessionId := Some sid, threadId := Some tid, intent := i, status := ''running'',
           nodes := map (\<lambda>n. n\<lparr>node_status := Idle\<rparr>) initialNodes,
           logs := [], currentDraft := '''', safetyScore := 0, empathyScore := 0,
           iterationCount := 0\<rparr>"

definition pick :: "'a option \<Rightarrow> 'a \<Rightarrow> 'a" where
  "pick p old = (case p of None \<Rightarrow> old | Some v \<Rightarrow> v)"

definition updateState :: "SessionPatch \<Rightarrow> SessionState \<Rightarrow> SessionState" where
  "updateState d state =
     \<lparr>sessionId = pick (p_sessionId d) (sessionId state),
      threadId = pick (p_threadId d) (threadId state),
      intent = pick (p_intent d) (intent state),
      status = pick (p_status d) (status state),
      currentDraft = pick (p_currentDraft d) (currentDraft state),
      safetyScore = pick (p_safetyScore d) (safetyScore state),
      empathyScore = pick (p_empathyScore d) (empathyScore state),
      iterationCount = pick (p_iterationCount d) (iterationCount state),
      nodes = pick (p_nodes d) (nodes state),
      activeNode = pick (p_activeNode d) (activeNode state),
      previousNode = pick (p_previousNode d) (previousNode state),
      logs = pick (p_logs d) (logs state),
      isConnected = pick (p_isConnected d) (isConnected state),
      isPaused = pick (p_isPaused d) (isPaused state)\<rparr>"

definition setActiveNode :: "string option \<Rightarrow> SessionState \<Rightarrow> SessionState" where
  "setActiveNode nodeId state =
     state\<lparr>activeNode := nodeId,
           nodes := map (\<lambda>n. n\<lparr>node_status :=
                      (if Some (node_id n) = nodeId then Active
                       else if node_status n = Active then Complete
                       else node_status n)\<rparr>) (nodes state)\<rparr>"

definition updateNodeStatus :: "string \<Rightarrow> NodeStatus \<Rightarrow> SessionState \<Rightarrow> SessionState" where
  "updateNodeStatus nodeId st state =
     state\<lparr>nodes := map (\<lambda>n. if node_id n = nodeId then n\<lparr>node_status := st\<rparr> else n)
                       (nodes state)\<rparr>"

text \<open>
  \<^verbatim>\<open>addLog\<close> builds the entry's id from \<^verbatim>\<open>Date.now()\<close> and \<^verbatim>\<open>Math.random()\<close> and its
  timestamp from \<^verbatim>\<open>new Date()\<close>; the model takes both readings as the arguments \<open>eid\<close>
  and \<open>now\<close>. The defaults of the source (\<^verbatim>\<open>type = 'info'\<close>, \<^verbatim>\<open>input = null\<close>,
  \<^verbatim>\<open>output = null\<close>) are written out by the caller.
\<close>

definition addLog ::
  "string \<Rightarrow> int \<Rightarrow> string \<Rightarrow> string \<Rightarrow> LogType \<Rightarrow> string option \<Rightarrow> string option \<Rightarrow>
   SessionState \<Rightarrow> SessionState" where
  "addLog eid now ag msg ty inp outp state =
     state\<lparr>logs := logs state @
        [\<lparr>entry_id = eid, timestamp = now, agent = ag, message = msg, log_type = ty,
          log_input = inp, log_output = outp\<rparr>]\<rparr>"

definition clearLogs :: "SessionState \<Rightarrow> SessionState" where
  "clearLogs state = state\<lparr>logs := []\<rparr>"

definition reset :: "SessionState \<Rightarrow> SessionState" where
  "reset state =
     state\<lparr>sessionId := None, threadId := None, intent := '''', status := ''idle'',
           currentDraft := '''', safetyScore := 0, empathyScore := 0, iterationCount := 0,
           nodes := initialNodes, activeNode := None, logs := [],
           isConnected := False, isPaused := False\<rparr>"

subsection \<open>Actions of part_005 that differ\<close>

definition setSession_part_005 ::
  "string \<Rightarrow> string \<Rightarrow> string \<Rightarrow> SessionState \<Rightarrow> SessionState" where
  "setSession_part_005 sid tid i state =
     (let isNewSession = (threadId state \<noteq> Some tid) in
      state\<lparr>sessionId := Some sid, threadId := Some tid, intent := i, status := ''running'',
            nodes := map (\<lambda>n. n\<lparr>node_status := Idle, executionCount := 0\<rparr>) initialNodes,
            activeNode := None, previousNode := None,
            logs := (if isNewSession then [] else logs state),
            currentDraft := '''', safetyScore := 0, empathyScore := 0,
            iterationCount := 0\<rparr>)"

definition setActiveNode_part_005 :: "string option \<Rightarrow> SessionState \<Rightarrow> SessionState" where
  "setActiveNode_part_005 nodeId state =
     (if activeNode state = nodeId then state
      else state\<lparr>previousNode := activeNode state, activeNode := nodeId,
                 nodes := map (\<lambda>n.
                    if Some (node_id n) = nodeId
                    then n\<lparr>node_status := Active, executionCount := executionCount n + 1\<rparr>
                    else if node_status n = Complete then n
                    else n\<lparr>node_status := (if node_status n = Active then Idle
                                            else node_status n)\<rparr>) (nodes state)\<rparr>)"

definition incrementAgentExecution :: "string \<Rightarrow> SessionState \<Rightarrow> SessionState" where
  "incrementAgentExecution nodeId state =
     state\<lparr>nodes := map (\<lambda>n. if node_id n = nodeId
                            then n\<lparr>executionCount := executionCount n + 1\<rparr> else n)
                       (nodes state)\<rparr>"

definition reset_part_005 :: "SessionState \<Rightarrow> SessionState" where
  "reset_part_005 state = (reset state)\<lparr>previousNode := None\<rparr>"

subsection \<open>At most one active node\<close>

definition active_nodes :: "AgentNode list \<Rightarrow> AgentNode list" where
  "active_nodes ns = filter (\<lambda>n. node_status n = Active) ns"

definition at_most_one_active :: "AgentNode list \<Rightarrow> bool" where
  "at_most_one_active ns = (length (active_nodes ns) \<le> 1)"

definition nodes_with_id :: "string option \<Rightarrow> AgentNode list \<Rightarrow> AgentNode list" where
  "nodes_with_id nodeId ns = filter (\<lambda>n. Some (node_id n) = nodeId) ns"

text \<open>
  What the store promises after \<^verbatim>\<open>setActiveNode(nodeId)\<close>, for either version \<open>f\<close> of the
  action: at most one node is active, the active nodes are the nodes whose id is
  \<open>nodeId\<close>, the nodes keep their ids and their order, and a node that was active under
  another id is not active any more.
\<close>

definition one_active_after ::
  "(string option \<Rightarrow> SessionState \<Rightarrow> SessionState) \<Rightarrow> string option \<Rightarrow> SessionState \<Rightarrow> bool" where
  "one_active_after f nodeId s =
     (at_most_one_active (nodes (f nodeId s)) \<and>
      active_nodes (nodes (f nodeId s)) = nodes_with_id nodeId (nodes (f nodeId s)) \<and>
      map node_id (nodes (f nodeId s)) = map node_id (nodes s) \<and>
      list_all (\<lambda>(before, after).
                  node_status before = Active \<and> Some (node_id before) \<noteq> nodeId
                  \<longrightarrow> node_status after \<noteq> Active)
               (zip (nodes s) (nodes (f nodeId s))))"

text \<open>
  A store that part_005 reaches from its initial state through its own actions: the
  drafter is made the active node, its status is then set back to idle (Dashboard.tsx does
  this for every node when a new iteration starts) and the supervisor's status is set to
  active, both with \<^verbatim>\<open>updateNodeStatus\<close>. \<open>activeNode\<close> still names the drafter.
\<close>

definition stale_store :: SessionState where
  "stale_store =
     updateNodeStatus ''supervisor'' Active
       (updateNodeStatus ''drafter'' Idle
          (setActiveNode_part_005 (Some ''drafter'') initial_store))"

text \<open>
  The empty \<^verbatim>\<open>Partial<SessionState>\<close>, and a store whose node list was replaced, through
  \<^verbatim>\<open>updateState\<close>, by one in which two nodes share the id \<^verbatim>\<open>drafter\<close>. The other
  actions never lead to such a list (lemma \<open>reachable_ids_unique\<close> below); only an
  \<^verbatim>\<open>updateState\<close> with a \<^verbatim>\<open>nodes\<close> key can bring one in.
\<close>

definition empty_patch :: SessionPatch where
  "empty_patch =
     \<lparr>p_sessionId = None, p_threadId = None, p_intent = None, p_status = None,
      p_currentDraft = None, p_safetyScore = None, p_empathyScore = None,
      p_iterationCount = None, p_nodes = None, p_activeNode = None, p_previousNode = None,
      p_logs = None, p_isConnected = None, p_isPaused = None\<rparr>"

definition twin_store :: SessionState where
  "twin_store =
     updateState
       (empty_patch\<lparr>p_nodes := Some [mk_node ''drafter'' ''Drafter'',
                                        mk_node ''drafter'' ''Drafter (copy)'']\<rparr>)
       initial_store"

subsection \<open>Sequences of actions and the log\<close>

text \<open>
  The actions of the store as data, and the store after a sequence of them. sessionStore.ts
  has the seven actions of \<open>action\<close>; part_005 has them and
  \<^verbatim>\<open>incrementAgentExecution\<close>.
\<close>

datatype action =
    SetSession string string string
  | UpdateState SessionPatch
  | SetActiveNode "string option"
  | UpdateNodeStatus string NodeStatus
  | AddLog string int string string LogType "string option" "string option"
  | ClearLogs
  | Reset

datatype action_part_005 =
    Common action
  | IncrementAgentExecution string

fun dispatch :: "action \<Rightarrow> SessionState \<Rightarrow> SessionState" where
  "dispatch (SetSession sid tid i) s = setSession sid tid i s"
| "dispatch (UpdateState d) s = updateState d s"
| "dispatch (SetActiveNode nodeId) s = setActiveNode nodeId s"
| "dispatch (UpdateNodeStatus nodeId st) s = updateNodeStatus nodeId st s"
| "dispatch (AddLog eid now ag msg ty inp outp) s = addLog eid now ag msg ty inp outp s"
| "dispatch ClearLogs s = clearLogs s"
| "dispatch Reset s = reset s"

fun dispatch_part_005 :: "action_part_005 \<Rightarrow> SessionState \<Rightarrow> SessionState" where
  "dispatch_part_005 (Common (SetSession sid tid i)) s = setSession_part_005 sid tid i s"
| "dispatch_part_005 (Common (SetActiveNode nodeId)) s = setActiveNode_part_005 nodeId s"
| "dispatch_part_005 (Common Reset) s = reset_part_005 s"
| "dispatch_part_005 (Common a) s = dispatch a s"
| "dispatch_part_005 (IncrementAgentExecution nodeId) s = incrementAgentExecution nodeId s"

text \<open>
  The actions that belong to a run that is under way. In sessionStore.ts every
  \<^verbatim>\<open>setSession\<close> starts over; in part_005 a \<^verbatim>\<open>setSession\<close> for the thread \<open>tid\<close> that is
  already loaded is how the Dashboard resumes a run. \<^verbatim>\<open>clearLogs\<close>, \<^verbatim>\<open>reset\<close> and an
  \<^verbatim>\<open>updateState\<close> that carries a \<^verbatim>\<open>logs\<close> key (or, in part_005, moves to another thread)
  are not among them.
\<close>

fun keeps_log :: "action \<Rightarrow> bool" where
  "keeps_log (SetSession sid tid i) = False"
| "keeps_log (UpdateState d) = (p_logs d = None)"
| "keeps_log ClearLogs = False"
| "keeps_log Reset = False"
| "keeps_log a = True"

fun same_run :: "string \<Rightarrow> action_part_005 \<Rightarrow> bool" where
  "same_run tid (Common (SetSession sid tid' i)) = (tid' = tid)"
| "same_run tid (Common (UpdateState d)) = (p_logs d = None \<and> p_threadId d = None)"
| "same_run tid (Common ClearLogs) = False"
| "same_run tid (Common Reset) = False"
| "same_run tid a = True"

text \<open>
  The actions that leave the node list in place: all but an \<^verbatim>\<open>updateState\<close> that carries
  a \<^verbatim>\<open>nodes\<close> key.
\<close>

fun keeps_nodes :: "action \<Rightarrow> bool" where
  "keeps_nodes (UpdateState d) = (p_nodes d = None)"
| "keeps_nodes a = True"

fun keeps_nodes_part_005 :: "action_part_005 \<Rightarrow> bool" where
  "keeps_nodes_part_005 (Common a) = keeps_nodes a"
| "keeps_nodes_part_005 (IncrementAgentExecution nodeId) = True"

text \<open>
  A store with a run loaded (thread \<^verbatim>\<open>t1\<close>) and one entry in its log, built with the
  actions of sessionStore.ts; it is a state of part_005 as well.
\<close>

definition logged_store :: SessionState where
  "logged_store =
     addLog ''1700000000000-0.5'' 1700000000000 ''drafter'' ''Draft created'' Info None None
       (setSession ''s1'' ''t1'' ''Create thought record for anxiety'' initial_store)"

section \<open>The Coordinator's routing decision\<close>

text \<open>
  The backend's routing function (the Supervisor's decision after the reviewers have scored
  a draft) is not under src/. The definitions of this section are modelled from the spec:
  its data model (section 3), its configuration options (section 6) and the Coordinator
  rows of its transition table with the tie-break rule (section 4.2). The repository's own
  documents under src/ give the same rows for its Supervisor (specs/03-tech-data.md, Flow
  Logic) and name the quality score \<^verbatim>\<open>empathy_score\<close> and its option
  \<^verbatim>\<open>EMPATHY_THRESHOLD\<close>.
\<close>

text \<open>
  Modelled from the spec: the six step executors of section 2 (the backend's graph nodes
  are missing).
\<close>

datatype step = Coordinator | Drafter | SafetyReviewer | QualityReviewer | HumanGate | Finalizer

text \<open>
  Modelled from the spec: the blackboard state of section 3 with the types of its fields
  (the backend's state type is missing). \<^verbatim>\<open>intent\<close> is \<open>request_intent\<close> here, the fields of
  a scratchpad entry \<^verbatim>\<open>message\<close> and \<^verbatim>\<open>timestamp\<close> are \<open>entry_message\<close> and
  \<open>entry_timestamp\<close>, and the fields \<^verbatim>\<open>action\<close> and \<^verbatim>\<open>severity\<close> are \<open>decision_action\<close>
  and \<open>flag_severity\<close>.
\<close>

datatype run_status =
  drafting | reviewing | awaiting_human | needs_revision | approved | rejected | cancelled | failed

datatype review_action = approve | reject | cancel

datatype severity = warning | critical

record flag =
  line :: nat
  reason :: string
  flag_severity :: severity

record human_decision =
  decision_action :: review_action
  edited_text :: "string option"
  feedback :: "string option"

record scratchpad_entry =
  step_name :: step
  entry_message :: string
  entry_timestamp :: nat
  raw_input :: "string option"
  raw_output :: "string option"

record blackboard =
  run_id :: string
  request_intent :: string
  drafts :: "string list"
  current_draft :: string
  scratchpad :: "scratchpad_entry list"
  safety_score :: nat
  quality_score :: nat
  safety_flags :: "flag list"
  iteration_count :: nat
  run_status :: run_status
  pending_human_decision :: "human_decision option"

text \<open>
  Modelled from the spec: the three configuration options the decision reads (section 6:
  environment-style options \<^verbatim>\<open>SAFETY_THRESHOLD\<close>, default 80, \<^verbatim>\<open>QUALITY_THRESHOLD\<close>,
  default 70, \<^verbatim>\<open>MAX_ITERATIONS\<close>, default 5) and how they are taken from an environment;
  the backend's configuration module is missing. An option that is not set has its default.
\<close>

record settings =
  SAFETY_THRESHOLD :: nat
  QUALITY_THRESHOLD :: nat
  MAX_ITERATIONS :: nat

definition load_settings :: "(string \<rightharpoonup> nat) \<Rightarrow> settings" where
  "load_settings env =
     \<lparr>SAFETY_THRESHOLD = (case env ''SAFETY_THRESHOLD'' of None \<Rightarrow> 80 | Some v \<Rightarrow> v),
      QUALITY_THRESHOLD = (case env ''QUALITY_THRESHOLD'' of None \<Rightarrow> 70 | Some v \<Rightarrow> v),
      MAX_ITERATIONS = (case env ''MAX_ITERATIONS'' of None \<Rightarrow> 5 | Some v \<Rightarrow> v)\<rparr>"

definition default_settings :: settings where
  "default_settings = load_settings Map.empty"

text \<open>
  Modelled from the spec: the condition of the transition table's row
  ``Coordinator, \<^verbatim>\<open>safety_score >= SAFETY_THRESHOLD\<close> AND
  \<^verbatim>\<open>quality_score >= QUALITY_THRESHOLD\<close> AND \<^verbatim>\<open>iteration_count >= 1\<close>: Human Gate''.
\<close>

definition thresholds_met :: "settings \<Rightarrow> blackboard \<Rightarrow> bool" where
  "thresholds_met cfg st =
     (SAFETY_THRESHOLD cfg \<le> safety_score st \<and>
      QUALITY_THRESHOLD cfg \<le> quality_score st \<and>
      1 \<le> iteration_count st)"

text \<open>
  Modelled from the spec: the router's decision after the Coordinator (the backend's
  routing function is missing), from the Coordinator rows of the transition table:

  \<^item> first pass or revision requested: Drafter;
  \<^item> thresholds met (the row above): Human Gate;
  \<^item> thresholds unmet and \<^verbatim>\<open>iteration_count < MAX_ITERATIONS\<close>: Drafter;
  \<^item> thresholds unmet and \<^verbatim>\<open>iteration_count >= MAX_ITERATIONS\<close>: Human Gate (forced
    escalation);
  \<^item> tie-break: forced escalation at \<^verbatim>\<open>MAX_ITERATIONS\<close> always wins over further looping.

  On the first pass \<^verbatim>\<open>iteration_count\<close> is 0, so the thresholds are unmet and the third
  row is the one that sends the run to the Drafter.
\<close>

definition route_after_coordinator :: "settings \<Rightarrow> blackboard \<Rightarrow> step" where
  "route_after_coordinator cfg st =
     (if thresholds_met cfg st then HumanGate
      else if MAX_ITERATIONS cfg \<le> iteration_count st then HumanGate
      else Drafter)"

text \<open>
  Modelled from the spec: the blackboard of a new run (section 3, lifecycle:
  \<^verbatim>\<open>iteration_count = 0\<close>, empty drafts and scratchpad), and a run that has used up its five
  iterations and whose scores are both 0.
\<close>

definition new_blackboard :: "string \<Rightarrow> string \<Rightarrow> blackboard" where
  "new_blackboard rid i =
     \<lparr>run_id = rid, request_intent = i, drafts = [], current_draft = '''', scratchpad = [],
      safety_score = 0, quality_score = 0, safety_flags = [], iteration_count = 0,
      run_status = drafting, pending_human_decision = None\<rparr>"

definition exhausted_blackboard :: blackboard where
  "exhausted_blackboard =
     (new_blackboard ''r1'' ''Create thought record for anxiety'')
       \<lparr>drafts := [''d1'', ''d2'', ''d3'', ''d4'', ''d5''], current_draft := ''d5'',
        iteration_count := 5, run_status := reviewing\<rparr>"

section \<open>Properties of the session store\<close>

subsection \<open>\<^verbatim>\<open>setActiveNode\<close>\<close>

lemma active_after_setActiveNode:
  "active_nodes (nodes (setActiveNode nodeId s)) =
   nodes_with_id nodeId (nodes (setActiveNode nodeId s))"
  by (simp add: setActiveNode_def active_nodes_def nodes_with_id_def filter_map o_def)

lemma ids_after_setActiveNode:
  "map node_id (nodes (setActiveNode nodeId s)) = map node_id (nodes s)"
  by (simp add: setActiveNode_def o_def)

lemma with_id_after_setActiveNode:
  "length (nodes_with_id nodeId (nodes (setActiveNode nodeId s))) =
   length (nodes_with_id nodeId (nodes s))"
  by (simp add: setActiveNode_def nodes_with_id_def filter_map o_def)

lemma others_after_setActiveNode:
  "list_all (\<lambda>(before, after).
       node_status before = Active \<and> Some (node_id before) \<noteq> nodeId
       \<longrightarrow> node_status after \<noteq> Active)
     (zip (nodes s) (nodes (setActiveNode nodeId s)))"
  by (auto simp add: setActiveNode_def list_all_iff zip_map2 zip_same split: if_splits)

lemma active_after_setActiveNode_part_005:
  "activeNode s \<noteq> nodeId \<Longrightarrow>
   active_nodes (nodes (setActiveNode_part_005 nodeId s)) =
   nodes_with_id nodeId (nodes (setActiveNode_part_005 nodeId s))"
  by (simp add: setActiveNode_part_005_def active_nodes_def nodes_with_id_def filter_map o_def)

lemma with_id_after_setActiveNode_part_005:
  "length (nodes_with_id nodeId (nodes (setActiveNode_part_005 nodeId s))) =
   length (nodes_with_id nodeId (nodes s))"
  by (simp add: setActiveNode_part_005_def nodes_with_id_def filter_map o_def)

lemma ids_after_setActiveNode_part_005:
  "map node_id (nodes (setActiveNode_part_005 nodeId s)) = map node_id (nodes s)"
  by (simp add: setActiveNode_part_005_def o_def)

lemma others_after_setActiveNode_part_005:
  "activeNode s \<noteq> nodeId \<Longrightarrow>
   list_all (\<lambda>(before, after).
       node_status before = Active \<and> Some (node_id before) \<noteq> nodeId
       \<longrightarrow> node_status after \<noteq> Active)
     (zip (nodes s) (nodes (setActiveNode_part_005 nodeId s)))"
  by (auto simp add: setActiveNode_part_005_def list_all_iff zip_map2 zip_same split: if_splits)

lemma short_circuit_setActiveNode_part_005:
  "activeNode s = nodeId \<Longrightarrow> setActiveNode_part_005 nodeId s = s"
  by (simp add: setActiveNode_part_005_def)

text \<open>
  Claim C10, as amended. In a store state in which at most one node is active and at most
  one node has the id \<open>nodeId\<close>, \<^verbatim>\<open>setActiveNode(nodeId)\<close> yields a state in which at most
  one node is active. In sessionStore.ts, and in part_005 whenever \<open>activeNode\<close> is not
  already \<open>nodeId\<close>, the active nodes of the new state are exactly the nodes whose id is
  \<open>nodeId\<close>, and no node that was active under another id is still active. When
  \<open>activeNode\<close> is already \<open>nodeId\<close>, part_005 returns the state as it is.
\<close>

theorem setActiveNode_one_active:
  assumes "at_most_one_active (nodes s)"
    and "length (nodes_with_id nodeId (nodes s)) \<le> 1"
  shows "one_active_after setActiveNode nodeId s \<and>
         at_most_one_active (nodes (setActiveNode_part_005 nodeId s)) \<and>
         (if activeNode s = nodeId then setActiveNode_part_005 nodeId s = s
          else one_active_after setActiveNode_part_005 nodeId s)"
proof -
  have v1: "one_active_after setActiveNode nodeId s"
    unfolding one_active_after_def at_most_one_active_def
    using assms(2) others_after_setActiveNode [of nodeId s]
    by (simp add: active_after_setActiveNode with_id_after_setActiveNode ids_after_setActiveNode)
  have v2: "one_active_after setActiveNode_part_005 nodeId s" if "activeNode s \<noteq> nodeId"
    unfolding one_active_after_def at_most_one_active_def
    using assms(2) that others_after_setActiveNode_part_005 [OF that]
    by (simp add: active_after_setActiveNode_part_005 with_id_after_setActiveNode_part_005
        ids_after_setActiveNode_part_005)
  have v2': "at_most_one_active (nodes (setActiveNode_part_005 nodeId s))"
  proof (cases "activeNode s = nodeId")
    case True
    then show ?thesis using assms(1) by (simp add: short_circuit_setActiveNode_part_005)
  next
    case False
    then show ?thesis using v2 by (simp add: one_active_after_def)
  qed
  show ?thesis using v1 v2 v2' by (simp add: short_circuit_setActiveNode_part_005)
qed

lemma stale_nodes:
  "nodes stale_store =
     [\<lparr>node_id = ''supervisor'', label = ''Supervisor'', node_status = Active,
       executionCount = 0\<rparr>,
      \<lparr>node_id = ''drafter'', label = ''Drafter'', node_status = Idle, executionCount = 1\<rparr>,
      \<lparr>node_id = ''safety_guardian'', label = ''Safety Guardian'', node_status = Idle,
       executionCount = 0\<rparr>,
      \<lparr>node_id = ''clinical_critic'', label = ''Clinical Critic'', node_status = Idle,
       executionCount = 0\<rparr>,
      \<lparr>node_id = ''human_gate'', label = ''Human Review'', node_status = Idle,
       executionCount = 0\<rparr>,
      \<lparr>node_id = ''finalize'', label = ''Finalize'', node_status = Idle, executionCount = 0\<rparr>]"
  by (simp add: stale_store_def updateNodeStatus_def setActiveNode_part_005_def initial_store_def
      initialNodes_def mk_node_def)

lemma stale_active: "activeNode stale_store = Some ''drafter''"
  by (simp add: stale_store_def updateNodeStatus_def setActiveNode_part_005_def initial_store_def)

text \<open>
  The theorem at \<open>stale_store\<close> and the node \<^verbatim>\<open>human_gate\<close>: one node (the supervisor) is
  active before, and in both versions the only active node afterwards is the human gate.
\<close>

theorem setActiveNode_one_active_witness:
  "at_most_one_active (nodes stale_store) \<and>
   length (nodes_with_id (Some ''human_gate'') (nodes stale_store)) \<le> 1 \<and>
   activeNode stale_store \<noteq> Some ''human_gate'' \<and>
   one_active_after setActiveNode (Some ''human_gate'') stale_store \<and>
   one_active_after setActiveNode_part_005 (Some ''human_gate'') stale_store \<and>
   map node_status (nodes (setActiveNode_part_005 (Some ''human_gate'') stale_store))
     = [Idle, Idle, Idle, Idle, Active, Idle]"
proof -
  have h1: "at_most_one_active (nodes stale_store)"
    by (simp add: at_most_one_active_def active_nodes_def stale_nodes)
  have h2: "length (nodes_with_id (Some ''human_gate'') (nodes stale_store)) \<le> 1"
    by (simp add: nodes_with_id_def stale_nodes)
  have h3: "activeNode stale_store \<noteq> Some ''human_gate''"
    by (simp add: stale_active)
  have h4: "map node_status (nodes (setActiveNode_part_005 (Some ''human_gate'') stale_store))
     = [Idle, Idle, Idle, Idle, Active, Idle]"
    by (simp add: setActiveNode_part_005_def stale_active stale_nodes)
  show ?thesis
    using setActiveNode_one_active [OF h1 h2] h1 h2 h3 h4 by simp
qed

lemma twin_nodes:
  "nodes twin_store =
     [\<lparr>node_id = ''drafter'', label = ''Drafter'', node_status = Idle, executionCount = 0\<rparr>,
      \<lparr>node_id = ''drafter'', label = ''Drafter (copy)'', node_status = Idle,
       executionCount = 0\<rparr>]"
  by (simp add: twin_store_def updateState_def pick_def empty_patch_def mk_node_def)

lemma twin_active: "activeNode twin_store = None"
  by (simp add: twin_store_def updateState_def pick_def empty_patch_def initial_store_def)

text \<open>
  Claim C10 as it was stated fails for part_005: in \<open>stale_store\<close> one node is active (the
  supervisor) and exactly one node has the id \<^verbatim>\<open>drafter\<close>, yet after
  \<^verbatim>\<open>setActiveNode('drafter')\<close> the supervisor is still the active node and the drafter is
  idle, because \<open>activeNode\<close> was \<^verbatim>\<open>drafter\<close> already and the action returns the state
  unchanged. sessionStore.ts completes the supervisor and activates the drafter. The claim
  also takes for granted that ids are unique: in \<open>twin_store\<close> no node is active before
  and both nodes of the id \<^verbatim>\<open>drafter\<close> are active after the call, in either version.
\<close>

theorem setActiveNode_part_005_counterexample:
  "at_most_one_active (nodes stale_store) \<and>
   length (nodes_with_id (Some ''drafter'') (nodes stale_store)) = 1 \<and>
   \<not> one_active_after setActiveNode_part_005 (Some ''drafter'') stale_store \<and>
   map node_status (nodes stale_store) = [Active, Idle, Idle, Idle, Idle, Idle] \<and>
   map node_status (nodes (setActiveNode_part_005 (Some ''drafter'') stale_store))
     = [Active, Idle, Idle, Idle, Idle, Idle] \<and>
   map node_status (nodes (setActiveNode (Some ''drafter'') stale_store))
     = [Complete, Active, Idle, Idle, Idle, Idle] \<and>
   at_most_one_active (nodes twin_store) \<and>
   \<not> at_most_one_active (nodes (setActiveNode (Some ''drafter'') twin_store)) \<and>
   \<not> at_most_one_active (nodes (setActiveNode_part_005 (Some ''drafter'') twin_store))"
  by (simp add: short_circuit_setActiveNode_part_005 stale_active one_active_after_def
      at_most_one_active_def active_nodes_def nodes_with_id_def stale_nodes setActiveNode_def
      twin_nodes twin_active setActiveNode_part_005_def)

subsection \<open>Node ids\<close>

text \<open>
  Every action but an \<^verbatim>\<open>updateState\<close> with a \<^verbatim>\<open>nodes\<close> key keeps the ids of the six
  initial nodes, in their order; so in every store reached from the initial one by such
  actions at most one node has a given id.
\<close>

lemma initial_ids:
  "map node_id initialNodes =
     [''supervisor'', ''drafter'', ''safety_guardian'', ''clinical_critic'', ''human_gate'',
      ''finalize'']"
  by (simp add: initialNodes_def mk_node_def)

lemma ids_map:
  "(\<And>n. node_id (f n) = node_id n) \<Longrightarrow> map node_id (map f ns) = map node_id ns"
  by (induction ns) simp_all

lemma ids_after_updateNodeStatus:
  "map node_id (nodes (updateNodeStatus nodeId st s)) = map node_id (nodes s)"
  unfolding updateNodeStatus_def by (simp del: map_map) (rule ids_map, simp)

lemma ids_after_incrementAgentExecution:
  "map node_id (nodes (incrementAgentExecution nodeId s)) = map node_id (nodes s)"
  unfolding incrementAgentExecution_def by (simp del: map_map) (rule ids_map, simp)

lemma ids_dispatch:
  assumes "keeps_nodes a" and "map node_id (nodes s) = map node_id initialNodes"
  shows "map node_id (nodes (dispatch a s)) = map node_id initialNodes"
proof (cases a)
  case (SetSession sid tid i)
  then show ?thesis by (simp add: setSession_def)
next
  case (UpdateState d)
  then show ?thesis using assms by (simp add: updateState_def pick_def)
next
  case (SetActiveNode nodeId)
  then show ?thesis using assms by (simp add: ids_after_setActiveNode)
next
  case (UpdateNodeStatus nodeId st)
  then show ?thesis using assms by (simp add: ids_after_updateNodeStatus)
next
  case (AddLog eid now ag msg ty inp outp)
  then show ?thesis using assms by (simp add: addLog_def)
next
  case ClearLogs
  then show ?thesis using assms by (simp add: clearLogs_def)
next
  case Reset
  then show ?thesis by (simp add: reset_def)
qed

lemma ids_dispatch_part_005:
  assumes "keeps_nodes_part_005 a" and "map node_id (nodes s) = map node_id initialNodes"
  shows "map node_id (nodes (dispatch_part_005 a s)) = map node_id initialNodes"
proof (cases a)
  case (Common c)
  show ?thesis
  proof (cases c)
    case (SetSession sid tid i)
    then show ?thesis using Common by (simp add: setSession_part_005_def)
  next
    case (SetActiveNode nodeId)
    then show ?thesis using Common assms by (simp add: ids_after_setActiveNode_part_005)
  next
    case Reset
    then show ?thesis using Common by (simp add: reset_part_005_def reset_def)
  next
    case (UpdateState d)
    then show ?thesis using Common assms ids_dispatch [of c s] by simp
  next
    case (UpdateNodeStatus nodeId st)
    then show ?thesis using Common assms ids_dispatch [of c s] by simp
  next
    case (AddLog eid now ag msg ty inp outp)
    then show ?thesis using Common assms ids_dispatch [of c s] by simp
  next
    case ClearLogs
    then show ?thesis using Common assms ids_dispatch [of c s] by simp
  qed
next
  case (IncrementAgentExecution x)
  then show ?thesis using assms by (simp add: ids_after_incrementAgentExecution)
qed

lemma ids_fold_dispatch:
  "\<forall>a\<in>set acts. keeps_nodes a \<Longrightarrow> map node_id (nodes s) = map node_id initialNodes \<Longrightarrow>
   map node_id (nodes (fold dispatch acts s)) = map node_id initialNodes"
  by (induction acts arbitrary: s) (simp_all add: ids_dispatch)

lemma ids_fold_dispatch_part_005:
  "\<forall>a\<in>set acts. keeps_nodes_part_005 a \<Longrightarrow>
   map node_id (nodes s) = map node_id initialNodes \<Longrightarrow>
   map node_id (nodes (fold dispatch_part_005 acts s)) = map node_id initialNodes"
  by (induction acts arbitrary: s) (simp_all add: ids_dispatch_part_005)

lemma one_with_id:
  "distinct (map node_id ns) \<Longrightarrow> length (nodes_with_id nodeId ns) \<le> 1"
proof (induction ns)
  case Nil
  then show ?case by (simp add: nodes_with_id_def)
next
  case (Cons n ns)
  show ?case
  proof (cases "Some (node_id n) = nodeId")
    case True
    have "node_id n \<notin> node_id ` set ns" using Cons.prems by simp
    then have "\<forall>m\<in>set ns. node_id m \<noteq> node_id n" by (metis imageI)
    then have "\<forall>m\<in>set ns. Some (node_id m) \<noteq> nodeId" using True by auto
    then have "filter (\<lambda>m. Some (node_id m) = nodeId) ns = []"
      by (simp add: filter_empty_conv)
    then show ?thesis using True by (simp add: nodes_with_id_def)
  next
    case False
    then show ?thesis using Cons by (simp add: nodes_with_id_def)
  qed
qed

lemma reachable_ids_unique:
  assumes "\<forall>a\<in>set acts. keeps_nodes a" and "\<forall>a\<in>set acts'. keeps_nodes_part_005 a"
  shows "length (nodes_with_id nodeId (nodes (fold dispatch acts initial_store))) \<le> 1 \<and>
         length (nodes_with_id nodeId (nodes (fold dispatch_part_005 acts' initial_store))) \<le> 1"
proof -
  have i: "map node_id (nodes initial_store) = map node_id initialNodes"
    by (simp add: initial_store_def)
  have d: "distinct (map node_id initialNodes)"
    by (simp add: initial_ids)
  have "distinct (map node_id (nodes (fold dispatch acts initial_store)))"
    using ids_fold_dispatch [OF assms(1) i] d by simp
  moreover have "distinct (map node_id (nodes (fold dispatch_part_005 acts' initial_store)))"
    using ids_fold_dispatch_part_005 [OF assms(2) i] d by simp
  ultimately show ?thesis by (blast intro: one_with_id)
qed

subsection \<open>The log\<close>

lemma logs_dispatch:
  "keeps_log a \<Longrightarrow> prefix (logs s) (logs (dispatch a s))"
  by (cases a)
     (simp_all add: updateState_def pick_def setActiveNode_def updateNodeStatus_def addLog_def)

lemma logs_fold_dispatch:
  "\<forall>a\<in>set acts. keeps_log a \<Longrightarrow> prefix (logs s) (logs (fold dispatch acts s))"
proof (induction acts arbitrary: s)
  case Nil
  then show ?case by simp
next
  case (Cons a acts)
  have "prefix (logs s) (logs (dispatch a s))"
    using Cons.prems by (simp add: logs_dispatch)
  moreover have "prefix (logs (dispatch a s)) (logs (fold dispatch acts (dispatch a s)))"
    using Cons by simp
  ultimately show ?case by (simp add: prefix_order.trans)
qed

lemma logs_dispatch_part_005:
  assumes "same_run tid a" and "threadId s = Some tid"
  shows "prefix (logs s) (logs (dispatch_part_005 a s)) \<and>
         threadId (dispatch_part_005 a s) = Some tid"
proof (cases a)
  case (Common c)
  then show ?thesis using assms
    by (cases c)
       (simp_all add: setSession_part_005_def updateState_def pick_def
          setActiveNode_part_005_def updateNodeStatus_def addLog_def)
next
  case (IncrementAgentExecution x)
  then show ?thesis using assms by (simp add: incrementAgentExecution_def)
qed

lemma logs_fold_dispatch_part_005:
  "\<forall>a\<in>set acts. same_run tid a \<Longrightarrow> threadId s = Some tid \<Longrightarrow>
   prefix (logs s) (logs (fold dispatch_part_005 acts s)) \<and>
   threadId (fold dispatch_part_005 acts s) = Some tid"
proof (induction acts arbitrary: s)
  case Nil
  then show ?case by simp
next
  case (Cons a acts)
  have "same_run tid a" using Cons.prems by simp
  then have 1: "prefix (logs s) (logs (dispatch_part_005 a s)) \<and>
      threadId (dispatch_part_005 a s) = Some tid"
    using Cons.prems(2) by (rule logs_dispatch_part_005)
  then have 2:
    "prefix (logs (dispatch_part_005 a s))
       (logs (fold dispatch_part_005 acts (dispatch_part_005 a s))) \<and>
     threadId (fold dispatch_part_005 acts (dispatch_part_005 a s)) = Some tid"
    using Cons by simp
  from 1 2 show ?case by (auto intro: prefix_order.trans)
qed

text \<open>
  The scratchpad itself is kept by the backend, whose code is not under src/. Its notes
  arrive in the server's messages and the Dashboard hands them to \<^verbatim>\<open>addLog\<close> (leaving out
  the ones it has logged already), so the store's \<open>logs\<close> is the copy of the scratchpad that
  the sources hold. That copy is append-only under the actions of a run that is under way:
  \<^verbatim>\<open>addLog\<close> adds exactly one entry at the end, and over any sequence of \<^verbatim>\<open>addLog\<close>,
  \<^verbatim>\<open>setActiveNode\<close>, \<^verbatim>\<open>updateNodeStatus\<close>, \<^verbatim>\<open>incrementAgentExecution\<close> and
  \<^verbatim>\<open>updateState\<close> without a \<^verbatim>\<open>logs\<close> key the old log is a prefix of the new one. In
  part_005 this holds as well across \<^verbatim>\<open>setSession\<close> for the thread that is already loaded,
  which is how the Dashboard resumes a run.
\<close>

lemma log_append_only:
  assumes "\<forall>a\<in>set acts. keeps_log a"
    and "threadId s' = Some tid"
    and "\<forall>a\<in>set acts'. same_run tid a"
  shows "prefix (logs s) (logs (fold dispatch acts s)) \<and>
         length (logs s) \<le> length (logs (fold dispatch acts s)) \<and>
         prefix (logs s') (logs (fold dispatch_part_005 acts' s')) \<and>
         length (logs s') \<le> length (logs (fold dispatch_part_005 acts' s')) \<and>
         logs (addLog eid now ag msg ty inp outp s) =
           logs s @ [\<lparr>entry_id = eid, timestamp = now, agent = ag, message = msg,
                       log_type = ty, log_input = inp, log_output = outp\<rparr>]"
  using logs_fold_dispatch [OF assms(1), of s]
    logs_fold_dispatch_part_005 [OF assms(3) assms(2)]
  by (simp add: prefix_length_le addLog_def)

lemma logged_logs:
  "logs logged_store =
     [\<lparr>entry_id = ''1700000000000-0.5'', timestamp = 1700000000000, agent = ''drafter'',
       message = ''Draft created'', log_type = Info, log_input = None, log_output = None\<rparr>]"
  by (simp add: logged_store_def addLog_def setSession_def)

lemma logged_thread: "threadId logged_store = Some ''t1''"
  by (simp add: logged_store_def addLog_def setSession_def)

text \<open>
  The other actions empty the log: \<open>logged_store\<close> holds the run of thread \<^verbatim>\<open>t1\<close> with one
  entry in its log, and \<^verbatim>\<open>setSession\<close> of sessionStore.ts for that same thread, which is the
  call Dashboard.tsx makes when it resumes a run, leaves an empty log; so do \<^verbatim>\<open>clearLogs\<close>
  and \<^verbatim>\<open>reset\<close>. The \<^verbatim>\<open>setSession\<close> of part_005 keeps the log.
\<close>

lemma log_emptied:
  "threadId logged_store = Some ''t1'' \<and>
   length (logs logged_store) = 1 \<and>
   logs (setSession ''s1'' ''t1'' ''Create thought record for anxiety'' logged_store) = [] \<and>
   logs (clearLogs logged_store) = [] \<and>
   logs (reset logged_store) = [] \<and>
   logs (setSession_part_005 ''s1'' ''t1'' ''Create thought record for anxiety'' logged_store)
     = logs logged_store"
  by (simp add: logged_logs logged_thread setSession_def clearLogs_def reset_def
      setSession_part_005_def)

section \<open>Properties of the Coordinator's routing decision\<close>

text \<open>
  Claim C7, as amended. After a Coordinator execution the router advances to the Human
  Gate if and only if the thresholds are met (\<^verbatim>\<open>safety_score >= SAFETY_THRESHOLD\<close>,
  \<^verbatim>\<open>quality_score >= QUALITY_THRESHOLD\<close> and \<^verbatim>\<open>iteration_count >= 1\<close>) or
  \<^verbatim>\<open>iteration_count >= MAX_ITERATIONS\<close> (forced escalation); otherwise it goes back to the
  Drafter. \<^verbatim>\<open>QUALITY_THRESHOLD\<close> is an option read from the environment, with default 70.
\<close>

theorem coordinator_route:
  "(route_after_coordinator cfg st = HumanGate) =
     ((SAFETY_THRESHOLD cfg \<le> safety_score st \<and> QUALITY_THRESHOLD cfg \<le> quality_score st \<and>
       1 \<le> iteration_count st) \<or> MAX_ITERATIONS cfg \<le> iteration_count st) \<and>
   (route_after_coordinator cfg st = Drafter) = (route_after_coordinator cfg st \<noteq> HumanGate) \<and>
   QUALITY_THRESHOLD (load_settings Map.empty) = 70 \<and>
   QUALITY_THRESHOLD (load_settings (env(''QUALITY_THRESHOLD'' \<mapsto> q))) = q"
  by (simp add: route_after_coordinator_def thresholds_met_def load_settings_def)

text \<open>
  Claim C7 as it was stated fails: with the default options, a run whose scores are both 0
  after five iterations is sent to the Human Gate although none of the two score
  thresholds is met.
\<close>

theorem coordinator_forced_escalation_counterexample:
  "route_after_coordinator default_settings exhausted_blackboard = HumanGate \<and>
   \<not> (SAFETY_THRESHOLD default_settings \<le> safety_score exhausted_blackboard \<and>
      QUALITY_THRESHOLD default_settings \<le> quality_score exhausted_blackboard \<and>
      1 \<le> iteration_count exhausted_blackboard) \<and>
   SAFETY_THRESHOLD default_settings = 80 \<and> QUALITY_THRESHOLD default_settings = 70 \<and>
   MAX_ITERATIONS default_settings = 5 \<and>
   safety_score exhausted_blackboard = 0 \<and> quality_score exhausted_blackboard = 0 \<and>
   iteration_count exhausted_blackboard = 5"
  by (simp add: route_after_coordinator_def thresholds_met_def default_settings_def
      load_settings_def exhausted_blackboard_def new_blackboard_def)

end
